theory Spec2Isabelle
  imports Main "HOL-Library.AList" "HOL-Library.Char_ord" "HOL-Library.List_Lexorder"
    "HOL-Library.Product_Lexorder" "HOL-Library.Multiset"
begin

section \<open>The Oracle session the role manager talks to\<close>

text \<open>
  The two modules \<^verbatim>\<open>rol_management.py\<close> and \<^verbatim>\<open>api.py\<close> reach the database only
  through an \<^verbatim>\<open>oracledb\<close> connection: \<^verbatim>\<open>cursor.execute\<close>, \<^verbatim>\<open>fetchone\<close>,
  \<^verbatim>\<open>fetchall\<close>, \<^verbatim>\<open>commit\<close> and \<^verbatim>\<open>rollback\<close>. The session is the environment of
  the code, so it is modelled here as a state: the three tables of the persisted schema
  (roles, users, and the user-role table with its two foreign keys), the last committed
  image of the user-role table, and a schedule of the failures the environment will
  answer the coming statements with.

  An \<^verbatim>\<open>oracledb.Error\<close> carries its text; \<^verbatim>\<open>oracledb.IntegrityError\<close> is the subclass
  the code catches first, \<open>DatabaseError\<close> stands for every other subclass.
\<close>

datatype ora_error = IntegrityError string | DatabaseError string

fun str :: "ora_error \<Rightarrow> string" where
  "str (IntegrityError msg) = msg"
| "str (DatabaseError msg) = msg"

text \<open>Python's \<^verbatim>\<open>s.startswith(p)\<close> and \<^verbatim>\<open>sub in s\<close> on strings.\<close>

fun startswith :: "string \<Rightarrow> string \<Rightarrow> bool" where
  "startswith s [] = True"
| "startswith [] (c # p) = False"
| "startswith (a # s) (c # p) = (a = c \<and> startswith s p)"

fun py_in :: "string \<Rightarrow> string \<Rightarrow> bool" where
  "py_in sub [] = (sub = [])"
| "py_in sub (a # s) = (startswith (a # s) sub \<or> py_in sub s)"

text \<open>A row of \<^verbatim>\<open>ue21.ue_usuario_roles (id, rol_id, usr_id)\<close>.\<close>

datatype grant = Grant (gid: int) (rol_id: int) (usr_id: int)

text \<open>
  \<open>ue_roles\<close> holds the rows \<open>(id, nombre)\<close>, \<open>ue_usuario\<close> the rows \<open>(ID, USR_PORTAL)\<close>,
  \<open>ue_usuario_roles\<close> the rows the session sees, \<open>committed\<close> the rows of the last
  commit, and \<open>faults\<close> the answer of the environment to each coming statement
  (\<open>None\<close>: the statement runs; \<open>Some e\<close>: it raises \<open>e\<close>; past the end: it runs).
\<close>

record db =
  ue_roles :: "(int \<times> string) list"
  ue_usuario :: "(int \<times> string) list"
  ue_usuario_roles :: "grant list"
  committed :: "grant list"
  faults :: "ora_error option list"

definition next_fault :: "db \<Rightarrow> ora_error option \<times> db" where
  "next_fault d = (case faults d of [] \<Rightarrow> (None, d) | f # fs \<Rightarrow> (f, d\<lparr>faults := fs\<rparr>))"

text \<open>One statement sent to the server: it raises when the environment says so.\<close>

definition execute :: "(db \<Rightarrow> (ora_error + 'a) \<times> db) \<Rightarrow> db \<Rightarrow> (ora_error + 'a) \<times> db" where
  "execute stmt d = (case next_fault d of (Some e, d') \<Rightarrow> (Inl e, d') | (None, d') \<Rightarrow> stmt d')"

text \<open>\<^verbatim>\<open>SELECT id, nombre FROM ue21.ue_roles\<close>, then \<^verbatim>\<open>fetchall()\<close>.\<close>

definition select_roles :: "db \<Rightarrow> (ora_error + (int \<times> string) list) \<times> db" where
  "select_roles = execute (\<lambda>d. (Inr (ue_roles d), d))"

text \<open>
  \<^verbatim>\<open>SELECT ID FROM ue21.ue_usuario WHERE USR_PORTAL = :usr\<close>, then \<^verbatim>\<open>fetchone()\<close>:
  the first matching row, or \<open>None\<close>.
\<close>

definition select_usuario :: "string \<Rightarrow> db \<Rightarrow> (ora_error + int option) \<times> db" where
  "select_usuario usr =
     execute (\<lambda>d. (Inr (map_option fst (find (\<lambda>row. snd row = usr) (ue_usuario d))), d))"

text \<open>
  \<^verbatim>\<open>SELECT 1 FROM ue21.ue_usuario_roles WHERE rol_id = :rol_id AND usr_id = :usr_id\<close>,
  then \<^verbatim>\<open>fetchone()\<close>: whether a row came back.
\<close>

definition select_usuario_roles :: "int \<Rightarrow> int \<Rightarrow> db \<Rightarrow> (ora_error + bool) \<times> db" where
  "select_usuario_roles r u =
     execute (\<lambda>d. (Inr (list_ex (\<lambda>g. rol_id g = r \<and> usr_id g = u) (ue_usuario_roles d)), d))"

text \<open>SQL's \<^verbatim>\<open>MAX(ID)\<close>: NULL on an empty table.\<close>

fun max_id :: "grant list \<Rightarrow> int option" where
  "max_id [] = None"
| "max_id (g # gs) = (case max_id gs of None \<Rightarrow> Some (gid g) | Some m \<Rightarrow> Some (max (gid g) m))"

text \<open>\<^verbatim>\<open>SELECT MAX(ID) + 1 FROM ue21.UE_USUARIO_ROLES\<close>, then \<^verbatim>\<open>fetchone()[0]\<close>.\<close>

definition select_max_id_plus_1 :: "db \<Rightarrow> (ora_error + int option) \<times> db" where
  "select_max_id_plus_1 =
     execute (\<lambda>d. (Inr (map_option (\<lambda>m. m + 1) (max_id (ue_usuario_roles d))), d))"

text \<open>
  \<^verbatim>\<open>INSERT INTO ue21.ue_usuario_roles (id, rol_id, usr_id) VALUES (:id, :rol_id, :usr_id)\<close>.
  The schema makes \<open>rol_id\<close> and \<open>usr_id\<close> foreign keys: a row whose parent is missing
  is refused with ORA-02291 and the table stays as it was.
\<close>

definition parent_key_not_found :: ora_error where
  "parent_key_not_found =
     IntegrityError ''ORA-02291: integrity constraint violated - parent key not found''"

definition insert_usuario_roles :: "int \<Rightarrow> int \<Rightarrow> int \<Rightarrow> db \<Rightarrow> (ora_error + unit) \<times> db" where
  "insert_usuario_roles i r u =
     execute (\<lambda>d.
       if map_of (ue_roles d) r \<noteq> None \<and> map_of (ue_usuario d) u \<noteq> None
       then (Inr (), d\<lparr>ue_usuario_roles := ue_usuario_roles d @ [Grant i r u]\<rparr>)
       else (Inl parent_key_not_found, d))"

text \<open>\<^verbatim>\<open>connection.commit()\<close> and \<^verbatim>\<open>connection.rollback()\<close>.\<close>

definition commit :: "db \<Rightarrow> (ora_error + unit) \<times> db" where
  "commit = execute (\<lambda>d. (Inr (), d\<lparr>committed := ue_usuario_roles d\<rparr>))"

definition rollback :: "db \<Rightarrow> db" where
  "rollback d = d\<lparr>ue_usuario_roles := committed d\<rparr>"

text \<open>The four tables of a session, without the schedule of the environment.\<close>

definition tables :: "db \<Rightarrow> (int \<times> string) list \<times> (int \<times> string) list \<times> grant list \<times> grant list" where
  "tables d = (ue_roles d, ue_usuario d, ue_usuario_roles d, committed d)"

section \<open>What a call leaves behind: printed lines and Python values\<close>

text \<open>
  The methods report their outcome by printing one line and returning a boolean. Each
  \<^verbatim>\<open>print\<close> of the source is a constructor here, with the values its f-string
  interpolates; \<open>Text\<close> is a line printed as it stands.
\<close>

datatype channel = Stdout | Stderr

datatype message =
    Text string
  | Error_cargando_roles ora_error
      \<comment> \<open>\<^verbatim>\<open>Error cargando roles: {e}\<close>\<close>
  | Error_trayendo_usuario string ora_error
      \<comment> \<open>\<^verbatim>\<open>Error trayendo usuario '{user}': {e}\<close>\<close>
  | No_se_encontraron_roles
      \<comment> \<open>\<^verbatim>\<open>No se encontraron roles en la DB\<close>\<close>
  | Role_line int string
      \<comment> \<open>\<^verbatim>\<open>{role_id:<5} | {role_name}\<close>\<close>
  | Total_de_roles nat
      \<comment> \<open>\<^verbatim>\<open>\nTotal de roles: {len(self.roles)}\<close>\<close>
  | Warning_usuario_no_existente string
      \<comment> \<open>\<^verbatim>\<open>Warning: Usuario '{user}' no existente\<close>\<close>
  | Error_rol_no_existente int
      \<comment> \<open>\<^verbatim>\<open>Error: ID de Rol {role_id} no existente\<close>\<close>
  | Usuario_tiene_rol string int string
      \<comment> \<open>\<^verbatim>\<open>Usuario '{user}' tiene el rol {role_id} ({role_name})\<close>, after a check mark\<close>
  | Usuario_no_tiene_rol string int string
      \<comment> \<open>\<^verbatim>\<open>Usuario '{user}' no tiene el rol {role_id} ({role_name})\<close>, after a cross\<close>
  | Error_de_oracle_al_revisar ora_error
      \<comment> \<open>\<^verbatim>\<open>Error de Oracle al revisar el rol: {e}\<close>\<close>
  | Info_ya_tiene_rol string int string
      \<comment> \<open>\<^verbatim>\<open>Info: Usuario '{user}' ya tiene el rol {role_id} ({name})\<close>\<close>
  | Success_se_concedio int string string
      \<comment> \<open>\<^verbatim>\<open>Success: Se concedio el rol {role_id} ({name}) al usuario '{user}'\<close>\<close>
  | Error_rol_no_existente_fk int
      \<comment> \<open>\<^verbatim>\<open>Error: ID de Rol {role_id} no existente (violacion de FK)\<close>\<close>
  | Error_de_integridad ora_error
      \<comment> \<open>\<^verbatim>\<open>Error de integridad de Oracle: {e}\<close>\<close>
  | Error_de_oracle ora_error
      \<comment> \<open>\<^verbatim>\<open>Error de Oracle: {e}\<close>\<close>

type_synonym printed = "(channel \<times> message) list"

datatype py_exn = ValueError string | OracleError ora_error

text \<open>The Python values \<^verbatim>\<open>jsonify\<close> serialises; \<open>PyNone\<close> becomes JSON \<^verbatim>\<open>null\<close>.\<close>

datatype pyval =
    PyNone
  | PyInt int
  | PyStr string
  | PyList "pyval list"
  | PyDict "(string \<times> pyval) list"

section \<open>The class \<^verbatim>\<open>RoleManager\<close>\<close>

text \<open>
  A Python \<^verbatim>\<open>dict\<close> is an association list in insertion order with distinct keys.
  A dict comprehension stores the pairs one by one: a key seen again keeps its place
  and takes the later value.
\<close>

definition dict_of :: "('k \<times> 'v) list \<Rightarrow> ('k \<times> 'v) list" where
  "dict_of rows = fold (\<lambda>(k, v). AList.update k v) rows []"

record role_manager =
  connection :: "db option"
  roles :: "(int \<times> string) list"
  roles_by_name :: "(string \<times> int) list"

text \<open>
  \<^verbatim>\<open>load_roles_from_db\<close> runs inside the constructor, on the connection just stored:
  it takes the connection and returns the dict, the lines printed and the session.
\<close>

definition load_roles_from_db ::
  "db option \<Rightarrow> (py_exn + (int \<times> string) list) \<times> printed \<times> db option" where
  "load_roles_from_db conn =
     (case conn of
        None \<Rightarrow> (Inl (ValueError ''Una conexion con la base de datos es requerida.''), [], None)
      | Some d \<Rightarrow>
          (case select_roles d of
             (Inr rows, d') \<Rightarrow> (Inr (dict_of rows), [], Some d')
           | (Inl e, d') \<Rightarrow> (Inr [], [(Stderr, Error_cargando_roles e)], Some d')))"

definition RoleManager_init :: "db option \<Rightarrow> (py_exn + role_manager) \<times> printed" where
  "RoleManager_init db_connection =
     (case load_roles_from_db db_connection of
        (Inl e, out, c) \<Rightarrow> (Inl e, out)
      | (Inr rs, out, c) \<Rightarrow>
          (Inr \<lparr>connection = c, roles = rs,
                roles_by_name = dict_of (map (\<lambda>(id, name). (name, id)) rs)\<rparr>, out))"

definition role_exists :: "role_manager \<Rightarrow> int \<Rightarrow> bool" where
  "role_exists self role_id = (map_of (roles self) role_id \<noteq> None)"

text \<open>\<^verbatim>\<open>self.roles.get(role_id, '')\<close>.\<close>

definition roles_get :: "role_manager \<Rightarrow> int \<Rightarrow> string" where
  "roles_get self role_id = (case map_of (roles self) role_id of None \<Rightarrow> [] | Some name \<Rightarrow> name)"

text \<open>
  \<^verbatim>\<open>get_user_id\<close>: the id of the first matching row, \<open>None\<close> when no row matches, and
  \<open>None\<close> again, after a line on stderr, when the query raises.
\<close>

definition get_user_id :: "string \<Rightarrow> db \<Rightarrow> int option \<times> printed \<times> db" where
  "get_user_id user d =
     (case select_usuario user d of
        (Inr result, d') \<Rightarrow> (result, [], d')
      | (Inl e, d') \<Rightarrow> (None, [(Stderr, Error_trayendo_usuario user e)], d'))"

text \<open>
  \<^verbatim>\<open>list_all_roles\<close> as the class defines it, in both modules: it prints and returns
  \<open>None\<close>. \<^verbatim>\<open>sorted(self.roles.items())\<close> orders the pairs as tuples.
\<close>

definition RoleManager_list_all_roles :: "role_manager \<Rightarrow> pyval \<times> printed" where
  "RoleManager_list_all_roles self =
     (if roles self = [] then (PyNone, [(Stderr, No_se_encontraron_roles)])
      else (PyNone,
        [(Stdout, Text ''Roles disponibles:''),
         (Stdout, Text (replicate 50 (CHR ''='')))] @
        [(Stdout, Text ''ID    | Nombre de Rol''),
         (Stdout, Text (replicate 50 (CHR ''-'')))] @
        map (\<lambda>(role_id, role_name). (Stdout, Role_line role_id role_name)) (sort (roles self)) @
        [(Stdout, Total_de_roles (length (roles self)))]))"

text \<open>
  The body of the \<^verbatim>\<open>try\<close> of \<^verbatim>\<open>check_user_role\<close>. The test \<^verbatim>\<open>if not user_id\<close> is
  taken when the id is \<open>None\<close> and when it is the integer 0.
\<close>

definition check_user_role_try ::
  "role_manager \<Rightarrow> string \<Rightarrow> int \<Rightarrow> db \<Rightarrow> (ora_error + bool) \<times> printed \<times> db" where
  "check_user_role_try self user role_id d =
     (case get_user_id user d of (user_id, out, d1) \<Rightarrow>
        let no_existente = (Inr False, out @ [(Stderr, Warning_usuario_no_existente user)], d1) in
        (case user_id of
           None \<Rightarrow> no_existente
         | Some uid \<Rightarrow>
             if uid = 0 then no_existente
             else if \<not> role_exists self role_id
               then (Inr False, out @ [(Stderr, Error_rol_no_existente role_id)], d1)
             else
               (case select_usuario_roles role_id uid d1 of
                  (Inl e, d2) \<Rightarrow> (Inl e, out, d2)
                | (Inr has_role, d2) \<Rightarrow>
                    let role_name = roles_get self role_id in
                    (Inr has_role,
                     out @ [(Stdout, if has_role then Usuario_tiene_rol user role_id role_name
                                     else Usuario_no_tiene_rol user role_id role_name)],
                     d2))))"

definition check_user_role ::
  "role_manager \<Rightarrow> string \<Rightarrow> int \<Rightarrow> (py_exn + bool) \<times> printed \<times> role_manager" where
  "check_user_role self user role_id =
     (case connection self of
        None \<Rightarrow> (Inl (ValueError ''Una conexion con la base de datos es requerida''), [], self)
      | Some d \<Rightarrow>
          (case check_user_role_try self user role_id d of
             (Inr b, out, d') \<Rightarrow> (Inr b, out, self\<lparr>connection := Some d'\<rparr>)
           | (Inl e, out, d') \<Rightarrow>
               (Inr False, out @ [(Stderr, Error_de_oracle_al_revisar e)],
                self\<lparr>connection := Some d'\<rparr>)))"

text \<open>The body of the \<^verbatim>\<open>try\<close> of \<^verbatim>\<open>grant_role\<close>.\<close>

definition grant_role_try ::
  "role_manager \<Rightarrow> string \<Rightarrow> int \<Rightarrow> db \<Rightarrow> (ora_error + bool) \<times> printed \<times> db" where
  "grant_role_try self user role_id d =
     (case get_user_id user d of (user_id, out, d1) \<Rightarrow>
        let no_existente = (Inr False, out @ [(Stderr, Warning_usuario_no_existente user)], d1) in
        (case user_id of
           None \<Rightarrow> no_existente
         | Some uid \<Rightarrow>
             if uid = 0 then no_existente
             else if \<not> role_exists self role_id
               then (Inr False, out @ [(Stderr, Error_rol_no_existente role_id)], d1)
             else
               (case select_usuario_roles role_id uid d1 of
                  (Inl e, d2) \<Rightarrow> (Inl e, out, d2)
                | (Inr found, d2) \<Rightarrow>
                    if found
                    then (Inr True,
                          out @ [(Stdout, Info_ya_tiene_rol user role_id (roles_get self role_id))],
                          d2)
                    else
                      (case select_max_id_plus_1 d2 of
                         (Inl e, d3) \<Rightarrow> (Inl e, out, d3)
                       | (Inr max_id_result, d3) \<Rightarrow>
                           let new_id = (case max_id_result of None \<Rightarrow> 1 | Some n \<Rightarrow> n) in
                           (case insert_usuario_roles new_id role_id uid d3 of
                              (Inl e, d4) \<Rightarrow> (Inl e, out, d4)
                            | (Inr _, d4) \<Rightarrow>
                                (case commit d4 of
                                   (Inl e, d5) \<Rightarrow> (Inl e, out, d5)
                                 | (Inr _, d5) \<Rightarrow>
                                     (Inr True,
                                      out @ [(Stdout, Success_se_concedio role_id
                                                (roles_get self role_id) user)],
                                      d5)))))))"

text \<open>
  Both \<^verbatim>\<open>except\<close> clauses of \<^verbatim>\<open>grant_role\<close> print one line, roll back and return
  \<open>False\<close>; the integrity clause looks for ORA-02291 in the text of the error.
\<close>

definition grant_role ::
  "role_manager \<Rightarrow> string \<Rightarrow> int \<Rightarrow> (py_exn + bool) \<times> printed \<times> role_manager" where
  "grant_role self user role_id =
     (case connection self of
        None \<Rightarrow> (Inl (ValueError ''Una conexion con la base de datos es requerida.''), [], self)
      | Some d \<Rightarrow>
          (case grant_role_try self user role_id d of
             (Inr b, out, d') \<Rightarrow> (Inr b, out, self\<lparr>connection := Some d'\<rparr>)
           | (Inl e, out, d') \<Rightarrow>
               (case e of
                  IntegrityError _ \<Rightarrow>
                    (Inr False,
                     out @ [(Stderr, if py_in ''ORA-02291'' (str e)
                                     then Error_rol_no_existente_fk role_id
                                     else Error_de_integridad e)],
                     self\<lparr>connection := Some (rollback d')\<rparr>)
                | DatabaseError _ \<Rightarrow>
                    (Inr False, out @ [(Stderr, Error_de_oracle e)],
                     self\<lparr>connection := Some (rollback d')\<rparr>))))"

section \<open>The module \<^verbatim>\<open>api.py\<close>\<close>

text \<open>
  In \<^verbatim>\<open>api.py\<close> a second \<^verbatim>\<open>def list_all_roles(self)\<close> starts in column 0, after the
  class body has ended: it is a function of the module, not a method of \<^verbatim>\<open>RoleManager\<close>,
  and nothing in the module calls it. It builds the structured listing.
\<close>

definition list_all_roles :: "role_manager \<Rightarrow> pyval" where
  "list_all_roles self =
     (if roles self = [] then PyDict [(''error'', PyStr ''No se encontraron roles'')]
      else
        (let roles_list =
           map (\<lambda>(role_id, role_name). PyDict [(''id'', PyInt role_id), (''nombre'', PyStr role_name)])
             (sort (roles self))
         in PyDict [(''total'', PyInt (int (length roles_list))), (''roles'', PyList roles_list)]))"

text \<open>
  The handler of \<^verbatim>\<open>GET /roles\<close>. The global \<^verbatim>\<open>role_manager\<close> is \<open>None\<close> until the
  start-up code has built the manager. \<^verbatim>\<open>role_manager.list_all_roles()\<close> is the method
  of the class; \<^verbatim>\<open>jsonify\<close> of its value is the body, with status 200. The method
  raises nothing, so the \<^verbatim>\<open>except Exception\<close> clause of the handler (status 500) has
  no branch here. The result is the body, the status and the lines printed.
\<close>

definition get_all_roles :: "role_manager option \<Rightarrow> (pyval \<times> nat) \<times> printed" where
  "get_all_roles role_manager =
     (case role_manager of
        None \<Rightarrow>
          ((PyDict [(''error'', PyStr ''El servidor no pudo conectarse a la base de datos'')], 500), [])
      | Some rm \<Rightarrow>
          (case RoleManager_list_all_roles rm of (roles_data, out) \<Rightarrow> ((roles_data, 200), out)))"

section \<open>Reading a listing back\<close>

text \<open>
  The pairs a printed listing shows, one per \<open>Role_line\<close>, in the order printed; and
  the entries a client finds under the key \<^verbatim>\<open>roles\<close> of a structured listing.
\<close>

fun role_lines :: "printed \<Rightarrow> (int \<times> string) list" where
  "role_lines [] = []"
| "role_lines ((c, Role_line role_id role_name) # ls) = (role_id, role_name) # role_lines ls"
| "role_lines (l # ls) = role_lines ls"

fun listed_roles :: "pyval \<Rightarrow> pyval list" where
  "listed_roles (PyDict kvs) = (case map_of kvs ''roles'' of Some (PyList rs) \<Rightarrow> rs | _ \<Rightarrow> [])"
| "listed_roles v = []"

section \<open>A session to run the calls on\<close>

text \<open>
  Users \<^verbatim>\<open>alice\<close> (id 42) and \<^verbatim>\<open>root\<close> (id 0); alice already holds role 7 through
  the grant row 3. The manager loaded its catalog when the roles table still had role 9,
  which has been deleted since: the catalog is a snapshot and is never refreshed.
\<close>

definition example_db :: db where
  "example_db =
     \<lparr>ue_roles = [(5, ''Admin''), (7, ''Viewer'')],
      ue_usuario = [(42, ''alice''), (0, ''root'')],
      ue_usuario_roles = [Grant 3 7 42],
      committed = [Grant 3 7 42],
      faults = []\<rparr>"

definition example_manager :: role_manager where
  "example_manager =
     \<lparr>connection = Some example_db,
      roles = [(5, ''Admin''), (7, ''Viewer''), (9, ''Auditor'')],
      roles_by_name = [(''Admin'', 5), (''Viewer'', 7), (''Auditor'', 9)]\<rparr>"

text \<open>The manager the constructor builds on the same session when the roles table is empty.\<close>

definition empty_manager :: role_manager where
  "empty_manager =
     \<lparr>connection = Some (example_db\<lparr>ue_roles := []\<rparr>), roles = [], roles_by_name = []\<rparr>"


section \<open>Statements and the schedule of the environment\<close>

lemma execute_no_fault: "faults d = [] \<Longrightarrow> execute stmt d = stmt d"
  by (simp add: execute_def next_fault_def)

lemma execute_pass: "faults d = None # fs \<Longrightarrow> execute stmt d = stmt (d\<lparr>faults := fs\<rparr>)"
  by (simp add: execute_def next_fault_def)

lemma execute_fault: "faults d = Some e # fs \<Longrightarrow> execute stmt d = (Inl e, d\<lparr>faults := fs\<rparr>)"
  by (simp add: execute_def next_fault_def)

lemma max_id_Max: "gs \<noteq> [] \<Longrightarrow> max_id gs = Some (Max (gid ` set gs))"
proof (induction gs)
  case Nil
  then show ?case by simp
next
  case (Cons g gs)
  show ?case
  proof (cases "gs = []")
    case True
    then show ?thesis by simp
  next
    case False
    with Cons.IH have "max_id gs = Some (Max (gid ` set gs))" by simp
    moreover have "Max (gid ` set (g # gs)) = max (gid g) (Max (gid ` set gs))"
      using False by simp
    ultimately show ?thesis by simp
  qed
qed

lemma found_user_is_parent:
  assumes "find (\<lambda>row. snd row = user) us = Some (uid, user)"
  shows "map_of us uid \<noteq> None"
proof -
  from assms have "(uid, user) \<in> set us"
    by (auto simp: find_Some_iff)
  then have "uid \<in> fst ` set us"
    by force
  then show ?thesis
    by (simp add: map_of_eq_None_iff)
qed

lemma no_row_no_match:
  "user \<notin> snd ` set us \<Longrightarrow> find (\<lambda>row. snd row = user) us = None"
  by (force simp: find_None_iff)

lemma get_user_id_no_fault:
  "faults d = [] \<Longrightarrow>
   get_user_id user d = (map_option fst (find (\<lambda>row. snd row = user) (ue_usuario d)), [], d)"
  by (simp add: get_user_id_def select_usuario_def execute_no_fault)

lemma get_user_id_pass:
  "faults d = None # fs \<Longrightarrow>
   get_user_id user d =
     (map_option fst (find (\<lambda>row. snd row = user) (ue_usuario d)), [], d\<lparr>faults := fs\<rparr>)"
  by (simp add: get_user_id_def select_usuario_def execute_pass)

lemma get_user_id_fault:
  "faults d = Some e # fs \<Longrightarrow>
   get_user_id user d = (None, [(Stderr, Error_trayendo_usuario user e)], d\<lparr>faults := fs\<rparr>)"
  by (simp add: get_user_id_def select_usuario_def execute_fault)

text \<open>Resolving a user changes no table, whatever the environment answers.\<close>

lemma get_user_id_cases:
  obtains (ran) d' where
      "get_user_id user d =
         (map_option fst (find (\<lambda>row. snd row = user) (ue_usuario d)), [], d')"
      "tables d' = tables d"
    | (raised) e d' where
      "get_user_id user d = (None, [(Stderr, Error_trayendo_usuario user e)], d')"
      "tables d' = tables d"
proof (cases "faults d")
  case Nil
  then show ?thesis
    using ran [of d] by (simp add: get_user_id_no_fault)
next
  case (Cons f fs)
  show ?thesis
  proof (cases f)
    case None
    with Cons show ?thesis
      using ran [of "d\<lparr>faults := fs\<rparr>"] by (simp add: get_user_id_pass tables_def)
  next
    case (Some e)
    with Cons show ?thesis
      using raised [of e "d\<lparr>faults := fs\<rparr>"] by (simp add: get_user_id_fault tables_def)
  qed
qed

section \<open>Granting\<close>

lemma grant_role_inserts:
  assumes "connection self = Some d"
    and "faults d = []"
    and "find (\<lambda>row. snd row = user) (ue_usuario d) = Some (uid, user)"
    and "uid \<noteq> 0"
    and "map_of (roles self) r = Some name"
    and "map_of (ue_roles d) r \<noteq> None"
    and "\<not> list_ex (\<lambda>g. rol_id g = r \<and> usr_id g = uid) (ue_usuario_roles d)"
  shows "grant_role self user r =
      (Inr True, [(Stdout, Success_se_concedio r name user)],
       self\<lparr>connection := Some (d\<lparr>
         ue_usuario_roles := ue_usuario_roles d @
           [Grant (if ue_usuario_roles d = [] then 1 else Max (gid ` set (ue_usuario_roles d)) + 1) r uid],
         committed := ue_usuario_roles d @
           [Grant (if ue_usuario_roles d = [] then 1 else Max (gid ` set (ue_usuario_roles d)) + 1) r uid]\<rparr>)\<rparr>)"
proof -
  have u: "map_of (ue_usuario d) uid \<noteq> None"
    using assms(3) by (rule found_user_is_parent)
  show ?thesis
    using assms u
    by (cases "ue_usuario_roles d = []")
      (simp_all add: grant_role_def grant_role_try_def get_user_id_no_fault
        select_usuario_roles_def select_max_id_plus_1_def insert_usuario_roles_def commit_def
        execute_no_fault role_exists_def roles_get_def max_id_Max)
qed

lemma grant_role_already:
  assumes "connection self = Some d"
    and "faults d = []"
    and "find (\<lambda>row. snd row = user) (ue_usuario d) = Some (uid, user)"
    and "uid \<noteq> 0"
    and "map_of (roles self) r = Some name"
    and "list_ex (\<lambda>g. rol_id g = r \<and> usr_id g = uid) (ue_usuario_roles d)"
  shows "grant_role self user r =
      (Inr True, [(Stdout, Info_ya_tiene_rol user r name)], self\<lparr>connection := Some d\<rparr>)"
  using assms
  by (simp add: grant_role_def grant_role_try_def get_user_id_no_fault
        select_usuario_roles_def execute_no_fault role_exists_def roles_get_def)

lemma grant_role_parent_missing:
  assumes "connection self = Some d"
    and "faults d = []"
    and "find (\<lambda>row. snd row = user) (ue_usuario d) = Some (uid, user)"
    and "uid \<noteq> 0"
    and "map_of (roles self) r = Some name"
    and "map_of (ue_roles d) r = None"
    and "\<not> list_ex (\<lambda>g. rol_id g = r \<and> usr_id g = uid) (ue_usuario_roles d)"
  shows "grant_role self user r =
      (Inr False, [(Stderr, Error_rol_no_existente_fk r)],
       self\<lparr>connection := Some (d\<lparr>ue_usuario_roles := committed d\<rparr>)\<rparr>)"
proof -
  have "py_in ''ORA-02291'' (str parent_key_not_found)"
    by (simp add: parent_key_not_found_def)
  then show ?thesis
    using assms
    by (simp add: grant_role_def grant_role_try_def get_user_id_no_fault
        select_usuario_roles_def select_max_id_plus_1_def insert_usuario_roles_def
        execute_no_fault role_exists_def roles_get_def rollback_def parent_key_not_found_def
        split: option.splits)
qed

text \<open>
  C1 (as amended). Let the login name resolve to a non-zero id, the role be in the
  catalog and still in the roles table, no grant row for the pair exist yet, and the
  session run every statement. Then the first \<^verbatim>\<open>grant_role\<close> returns \<open>True\<close> and prints
  the Success line, the second returns \<open>True\<close> and prints the Info line of a role
  already granted, and afterwards the user-role table, as seen and as committed, holds
  exactly one row for the pair.
\<close>

theorem grant_role_twice:
  assumes "connection self = Some d"
    and "faults d = []"
    and "find (\<lambda>row. snd row = user) (ue_usuario d) = Some (uid, user)"
    and "uid \<noteq> 0"
    and "map_of (roles self) r = Some name"
    and "map_of (ue_roles d) r \<noteq> None"
    and "\<not> list_ex (\<lambda>g. rol_id g = r \<and> usr_id g = uid) (ue_usuario_roles d)"
  shows "\<exists>self1 self2 d2.
      grant_role self user r = (Inr True, [(Stdout, Success_se_concedio r name user)], self1) \<and>
      grant_role self1 user r = (Inr True, [(Stdout, Info_ya_tiene_rol user r name)], self2) \<and>
      Success_se_concedio r name user \<noteq> Info_ya_tiene_rol user r name \<and>
      connection self2 = Some d2 \<and>
      length (filter (\<lambda>g. rol_id g = r \<and> usr_id g = uid) (ue_usuario_roles d2)) = 1 \<and>
      committed d2 = ue_usuario_roles d2"
proof -
  define row where
    "row = Grant (if ue_usuario_roles d = [] then 1 else Max (gid ` set (ue_usuario_roles d)) + 1) r uid"
  define d1 where
    "d1 = d\<lparr>ue_usuario_roles := ue_usuario_roles d @ [row], committed := ue_usuario_roles d @ [row]\<rparr>"
  define self1 where "self1 = self\<lparr>connection := Some d1\<rparr>"
  have first: "grant_role self user r = (Inr True, [(Stdout, Success_se_concedio r name user)], self1)"
    using grant_role_inserts [OF assms] by (simp add: self1_def d1_def row_def)
  have "list_ex (\<lambda>g. rol_id g = r \<and> usr_id g = uid) (ue_usuario_roles d1)"
    by (simp add: d1_def row_def list_ex_iff)
  moreover have "connection self1 = Some d1" "faults d1 = []"
    "find (\<lambda>row. snd row = user) (ue_usuario d1) = Some (uid, user)"
    "map_of (roles self1) r = Some name"
    using assms by (simp_all add: self1_def d1_def)
  ultimately have second:
    "grant_role self1 user r =
       (Inr True, [(Stdout, Info_ya_tiene_rol user r name)], self1\<lparr>connection := Some d1\<rparr>)"
    using \<open>uid \<noteq> 0\<close> by (intro grant_role_already) simp_all
  have "filter (\<lambda>g. rol_id g = r \<and> usr_id g = uid) (ue_usuario_roles d) = []"
    using assms(7) by (simp add: list_ex_iff filter_empty_conv)
  then have one: "length (filter (\<lambda>g. rol_id g = r \<and> usr_id g = uid) (ue_usuario_roles d1)) = 1"
    by (simp add: d1_def row_def)
  have "committed d1 = ue_usuario_roles d1"
    by (simp add: d1_def)
  with first second one show ?thesis
    by (intro exI [of _ self1] exI [of _ "self1\<lparr>connection := Some d1\<rparr>"] exI [of _ d1]) simp
qed

theorem grant_role_twice_witness:
  "connection example_manager = Some example_db \<and>
   faults example_db = [] \<and>
   find (\<lambda>row. snd row = ''alice'') (ue_usuario example_db) = Some (42, ''alice'') \<and>
   map_of (roles example_manager) 5 = Some ''Admin'' \<and>
   map_of (ue_roles example_db) 5 \<noteq> None \<and>
   \<not> list_ex (\<lambda>g. rol_id g = 5 \<and> usr_id g = 42) (ue_usuario_roles example_db) \<and>
   (\<exists>self1 self2 d2.
      grant_role example_manager ''alice'' 5 =
        (Inr True, [(Stdout, Success_se_concedio 5 ''Admin'' ''alice'')], self1) \<and>
      grant_role self1 ''alice'' 5 =
        (Inr True, [(Stdout, Info_ya_tiene_rol ''alice'' 5 ''Admin'')], self2) \<and>
      connection self2 = Some d2 \<and>
      length (filter (\<lambda>g. rol_id g = 5 \<and> usr_id g = 42) (ue_usuario_roles d2)) = 1)"
proof -
  have h: "connection example_manager = Some example_db"
    "faults example_db = []"
    "find (\<lambda>row. snd row = ''alice'') (ue_usuario example_db) = Some (42, ''alice'')"
    "(42::int) \<noteq> 0"
    "map_of (roles example_manager) 5 = Some ''Admin''"
    "map_of (ue_roles example_db) 5 \<noteq> None"
    "\<not> list_ex (\<lambda>g. rol_id g = 5 \<and> usr_id g = 42) (ue_usuario_roles example_db)"
    by (simp_all add: example_manager_def example_db_def)
  from grant_role_twice [OF h] h show ?thesis
    by blast
qed

text \<open>
  The claim as written asks for Success on the first call for every existing user and
  every catalog role. Alice already holds role 7: the first call finds the row, prints
  the Info line and inserts nothing.
\<close>

theorem grant_role_twice_counterexample:
  "map_of (ue_usuario example_db) 42 = Some ''alice'' \<and>
   map_of (roles example_manager) 7 = Some ''Viewer'' \<and>
   grant_role example_manager ''alice'' 7 =
     (Inr True, [(Stdout, Info_ya_tiene_rol ''alice'' 7 ''Viewer'')], example_manager) \<and>
   fst (snd (grant_role example_manager ''alice'' 7)) \<noteq>
     [(Stdout, Success_se_concedio 7 ''Viewer'' ''alice'')]"
  by (simp add: example_manager_def example_db_def grant_role_def grant_role_try_def
      get_user_id_def select_usuario_def select_usuario_roles_def execute_def next_fault_def
      role_exists_def roles_get_def)


text \<open>
  C2 (as amended). Let the login name resolve to a non-zero id \<open>uid\<close>, the role \<open>r\<close> be
  in the catalog and still in the roles table, no grant row for the pair exist, and the
  session run every statement. Then \<^verbatim>\<open>grant_role\<close> appends exactly one row to the
  user-role table, with \<open>usr_id = uid\<close>, \<open>rol_id = r\<close> and as id the greatest id of the
  table plus one, or 1 on an empty table; the row is committed when the call returns
  \<open>True\<close> with the Success line; the other tables are untouched.
\<close>

theorem grant_role_inserts_next_id:
  assumes "connection self = Some d"
    and "faults d = []"
    and "find (\<lambda>row. snd row = user) (ue_usuario d) = Some (uid, user)"
    and "uid \<noteq> 0"
    and "map_of (roles self) r = Some name"
    and "map_of (ue_roles d) r \<noteq> None"
    and "\<not> list_ex (\<lambda>g. rol_id g = r \<and> usr_id g = uid) (ue_usuario_roles d)"
  shows "\<exists>d'.
      grant_role self user r =
        (Inr True, [(Stdout, Success_se_concedio r name user)], self\<lparr>connection := Some d'\<rparr>) \<and>
      ue_usuario_roles d' = ue_usuario_roles d @
        [Grant (if ue_usuario_roles d = [] then 1 else Max (gid ` set (ue_usuario_roles d)) + 1) r uid] \<and>
      committed d' = ue_usuario_roles d' \<and>
      ue_roles d' = ue_roles d \<and> ue_usuario d' = ue_usuario d"
proof -
  define row where
    "row = Grant (if ue_usuario_roles d = [] then 1 else Max (gid ` set (ue_usuario_roles d)) + 1) r uid"
  define d' where
    "d' = d\<lparr>ue_usuario_roles := ue_usuario_roles d @ [row], committed := ue_usuario_roles d @ [row]\<rparr>"
  have "grant_role self user r =
      (Inr True, [(Stdout, Success_se_concedio r name user)], self\<lparr>connection := Some d'\<rparr>)"
    using grant_role_inserts [OF assms] by (simp add: d'_def row_def)
  moreover have "ue_usuario_roles d' = ue_usuario_roles d @ [row]"
    "committed d' = ue_usuario_roles d'" "ue_roles d' = ue_roles d" "ue_usuario d' = ue_usuario d"
    by (simp_all add: d'_def)
  ultimately show ?thesis
    unfolding row_def by blast
qed

theorem grant_role_inserts_next_id_witness:
  "(\<exists>d'. grant_role example_manager ''alice'' 5 =
        (Inr True, [(Stdout, Success_se_concedio 5 ''Admin'' ''alice'')],
         example_manager\<lparr>connection := Some d'\<rparr>) \<and>
      ue_usuario_roles d' = [Grant 3 7 42, Grant 4 5 42] \<and>
      committed d' = [Grant 3 7 42, Grant 4 5 42]) \<and>
   (\<exists>d'. grant_role
        (example_manager\<lparr>connection := Some (example_db\<lparr>ue_usuario_roles := [], committed := []\<rparr>)\<rparr>)
        ''alice'' 5 =
        (Inr True, [(Stdout, Success_se_concedio 5 ''Admin'' ''alice'')],
         example_manager\<lparr>connection := Some d'\<rparr>) \<and>
      ue_usuario_roles d' = [Grant 1 5 42] \<and>
      committed d' = [Grant 1 5 42])"
proof -
  have h: "connection example_manager = Some example_db"
    "faults example_db = []"
    "find (\<lambda>row. snd row = ''alice'') (ue_usuario example_db) = Some (42, ''alice'')"
    "(42::int) \<noteq> 0"
    "map_of (roles example_manager) 5 = Some ''Admin''"
    "map_of (ue_roles example_db) 5 \<noteq> None"
    "\<not> list_ex (\<lambda>g. rol_id g = 5 \<and> usr_id g = 42) (ue_usuario_roles example_db)"
    by (simp_all add: example_manager_def example_db_def)
  define d0 where "d0 = example_db\<lparr>ue_usuario_roles := [], committed := []\<rparr>"
  define m0 where "m0 = example_manager\<lparr>connection := Some d0\<rparr>"
  have h0: "connection m0 = Some d0"
    "faults d0 = []"
    "find (\<lambda>row. snd row = ''alice'') (ue_usuario d0) = Some (42, ''alice'')"
    "(42::int) \<noteq> 0"
    "map_of (roles m0) 5 = Some ''Admin''"
    "map_of (ue_roles d0) 5 \<noteq> None"
    "\<not> list_ex (\<lambda>g. rol_id g = 5 \<and> usr_id g = 42) (ue_usuario_roles d0)"
    by (simp_all add: m0_def d0_def example_manager_def example_db_def)
  have "ue_usuario_roles example_db = [Grant 3 7 42]" "ue_usuario_roles d0 = []"
    by (simp_all add: d0_def example_db_def)
  with grant_role_inserts_next_id [OF h] grant_role_inserts_next_id [OF h0]
  show ?thesis
    unfolding m0_def d0_def by (simp add: example_manager_def) metis
qed

text \<open>
  The claim as written asks only that the role be in the catalog. Role 9 is in the
  catalog and has left the roles table: the insert is refused, no row is added and the
  call returns \<open>False\<close>.
\<close>

theorem grant_role_inserts_next_id_counterexample:
  "find (\<lambda>row. snd row = ''alice'') (ue_usuario example_db) = Some (42, ''alice'') \<and>
   map_of (roles example_manager) 9 = Some ''Auditor'' \<and>
   \<not> list_ex (\<lambda>g. rol_id g = 9 \<and> usr_id g = 42) (ue_usuario_roles example_db) \<and>
   grant_role example_manager ''alice'' 9 =
     (Inr False, [(Stderr, Error_rol_no_existente_fk 9)], example_manager)"
  by (simp add: example_manager_def example_db_def grant_role_def grant_role_try_def
      get_user_id_def select_usuario_def select_usuario_roles_def select_max_id_plus_1_def
      insert_usuario_roles_def execute_def next_fault_def role_exists_def roles_get_def
      rollback_def parent_key_not_found_def)


lemma grant_role_insert_raises:
  assumes "connection self = Some d"
    and "faults d = [None, None, None, Some (DatabaseError msg)]"
    and "find (\<lambda>row. snd row = user) (ue_usuario d) = Some (uid, user)"
    and "uid \<noteq> 0"
    and "map_of (roles self) r = Some name"
    and "\<not> list_ex (\<lambda>g. rol_id g = r \<and> usr_id g = uid) (ue_usuario_roles d)"
  shows "grant_role self user r =
      (Inr False, [(Stderr, Error_de_oracle (DatabaseError msg))],
       self\<lparr>connection := Some (d\<lparr>ue_usuario_roles := committed d, faults := []\<rparr>)\<rparr>)"
  using assms
  by (simp add: grant_role_def grant_role_try_def get_user_id_pass
        select_usuario_roles_def select_max_id_plus_1_def insert_usuario_roles_def
        execute_pass execute_fault role_exists_def roles_get_def rollback_def
        split: option.splits)

text \<open>
  C4. Let a grant pass the user check and the catalog check, find no row for the pair,
  and have its insert refused by the foreign key because the role has left the roles
  table. Then \<^verbatim>\<open>grant_role\<close> prints the line of a role that does not exist (FK
  violation), rolls back and returns \<open>False\<close>: the committed user-role table is the one
  before the call and the session sees exactly it, so a table with no pending change
  keeps its rows. A generic database error on the same insert returns \<open>False\<close> as well
  and prints another line, \<open>Error_de_oracle\<close>.
\<close>

theorem grant_role_foreign_key:
  assumes "connection self = Some d"
    and "faults d = []"
    and "find (\<lambda>row. snd row = user) (ue_usuario d) = Some (uid, user)"
    and "uid \<noteq> 0"
    and "map_of (roles self) r = Some name"
    and "map_of (ue_roles d) r = None"
    and "\<not> list_ex (\<lambda>g. rol_id g = r \<and> usr_id g = uid) (ue_usuario_roles d)"
  shows "\<exists>d'.
      grant_role self user r =
        (Inr False, [(Stderr, Error_rol_no_existente_fk r)], self\<lparr>connection := Some d'\<rparr>) \<and>
      committed d' = committed d \<and>
      ue_usuario_roles d' = committed d \<and>
      length (committed d') = length (committed d) \<and>
      (ue_usuario_roles d = committed d \<longrightarrow>
         length (ue_usuario_roles d') = length (ue_usuario_roles d) \<and> tables d' = tables d) \<and>
      (\<forall>msg. fst (snd (grant_role
           (self\<lparr>connection := Some (d\<lparr>faults := [None, None, None, Some (DatabaseError msg)]\<rparr>)\<rparr>)
           user r)) = [(Stderr, Error_de_oracle (DatabaseError msg))] \<and>
         Error_de_oracle (DatabaseError msg) \<noteq> Error_rol_no_existente_fk r)"
proof -
  define d' where "d' = d\<lparr>ue_usuario_roles := committed d\<rparr>"
  have "grant_role self user r =
      (Inr False, [(Stderr, Error_rol_no_existente_fk r)], self\<lparr>connection := Some d'\<rparr>)"
    unfolding d'_def using assms by (rule grant_role_parent_missing)
  moreover have "committed d' = committed d" "ue_usuario_roles d' = committed d"
    by (simp_all add: d'_def)
  moreover have "ue_usuario_roles d = committed d \<longrightarrow> tables d' = tables d"
    by (simp add: d'_def tables_def)
  moreover have "fst (snd (grant_role
           (self\<lparr>connection := Some (d\<lparr>faults := [None, None, None, Some (DatabaseError msg)]\<rparr>)\<rparr>)
           user r)) = [(Stderr, Error_de_oracle (DatabaseError msg))]" for msg
    using assms
    by (subst grant_role_insert_raises [where d = "d\<lparr>faults := [None, None, None, Some (DatabaseError msg)]\<rparr>"
          and uid = uid and name = name and msg = msg]) simp_all
  ultimately show ?thesis
    by (intro exI [of _ d']) simp
qed

theorem grant_role_foreign_key_witness:
  "find (\<lambda>row. snd row = ''alice'') (ue_usuario example_db) = Some (42, ''alice'') \<and>
   map_of (roles example_manager) 9 = Some ''Auditor'' \<and>
   map_of (ue_roles example_db) 9 = None \<and>
   ue_usuario_roles example_db = committed example_db \<and>
   (\<exists>d'. grant_role example_manager ''alice'' 9 =
        (Inr False, [(Stderr, Error_rol_no_existente_fk 9)],
         example_manager\<lparr>connection := Some d'\<rparr>) \<and>
      ue_usuario_roles d' = [Grant 3 7 42] \<and>
      committed d' = [Grant 3 7 42] \<and>
      length (ue_usuario_roles d') = length (ue_usuario_roles example_db))"
proof -
  have h: "connection example_manager = Some example_db"
    "faults example_db = []"
    "find (\<lambda>row. snd row = ''alice'') (ue_usuario example_db) = Some (42, ''alice'')"
    "(42::int) \<noteq> 0"
    "map_of (roles example_manager) 9 = Some ''Auditor''"
    "map_of (ue_roles example_db) 9 = None"
    "\<not> list_ex (\<lambda>g. rol_id g = 9 \<and> usr_id g = 42) (ue_usuario_roles example_db)"
    by (simp_all add: example_manager_def example_db_def)
  have c: "ue_usuario_roles example_db = committed example_db"
    "committed example_db = [Grant 3 7 42]"
    by (simp_all add: example_db_def)
  from grant_role_foreign_key [OF h] obtain d' where
    "grant_role example_manager ''alice'' 9 =
        (Inr False, [(Stderr, Error_rol_no_existente_fk 9)],
         example_manager\<lparr>connection := Some d'\<rparr>)"
    "committed d' = committed example_db" "ue_usuario_roles d' = committed example_db"
    by blast
  with h c show ?thesis
    by (intro conjI exI [of _ d']) simp_all
qed


section \<open>Users and roles that are not found\<close>

lemma not_found_try:
  assumes "get_user_id user d = (user_id, out, d1)"
    and "user_id = None \<or> user_id = Some 0"
  shows "check_user_role_try self user r d =
           (Inr False, out @ [(Stderr, Warning_usuario_no_existente user)], d1)"
    and "grant_role_try self user r d =
           (Inr False, out @ [(Stderr, Warning_usuario_no_existente user)], d1)"
  using assms by (auto simp: check_user_role_try_def grant_role_try_def)

lemma role_not_found_try:
  assumes "get_user_id user d = (Some uid, out, d1)"
    and "uid \<noteq> 0"
    and "map_of (roles self) r = None"
  shows "check_user_role_try self user r d =
           (Inr False, out @ [(Stderr, Error_rol_no_existente r)], d1)"
    and "grant_role_try self user r d =
           (Inr False, out @ [(Stderr, Error_rol_no_existente r)], d1)"
  using assms by (auto simp: check_user_role_try_def grant_role_try_def role_exists_def)

text \<open>
  A role that is not in the catalog, for a login name that resolves to a non-zero id:
  both methods print the line of the missing role, return \<open>False\<close> and change no table.
\<close>

lemma role_not_found:
  assumes "connection self = Some d"
    and "faults d = [] \<or> (\<exists>fs. faults d = None # fs)"
    and "find (\<lambda>row. snd row = user) (ue_usuario d) = Some (uid, user)"
    and "uid \<noteq> 0"
    and "map_of (roles self) r = None"
  shows "\<exists>d'.
      check_user_role self user r =
        (Inr False, [(Stderr, Error_rol_no_existente r)], self\<lparr>connection := Some d'\<rparr>) \<and>
      grant_role self user r =
        (Inr False, [(Stderr, Error_rol_no_existente r)], self\<lparr>connection := Some d'\<rparr>) \<and>
      tables d' = tables d"
proof -
  obtain d' where g: "get_user_id user d = (Some uid, [], d')" and t: "tables d' = tables d"
    using assms(2,3) by (auto simp: get_user_id_no_fault get_user_id_pass tables_def)
  from role_not_found_try [OF g assms(4,5)] assms(1) t show ?thesis
    by (intro exI [of _ d']) (simp add: check_user_role_def grant_role_def)
qed

text \<open>
  C5, where the code leaves the claim. \<^verbatim>\<open>root\<close> is a row of the users table, with
  id 0, and role 99 is not in the catalog. The claim asks for the line of the missing
  role; both methods print the line of the missing user, because \<^verbatim>\<open>if not user_id\<close>
  is taken for the id 0.
\<close>

theorem role_not_found_user_id_zero:
  "find (\<lambda>row. snd row = ''root'') (ue_usuario example_db) = Some (0, ''root'') \<and>
   map_of (roles example_manager) 99 = None \<and>
   check_user_role example_manager ''root'' 99 =
     (Inr False, [(Stderr, Warning_usuario_no_existente ''root'')], example_manager) \<and>
   grant_role example_manager ''root'' 99 =
     (Inr False, [(Stderr, Warning_usuario_no_existente ''root'')], example_manager) \<and>
   Warning_usuario_no_existente ''root'' \<noteq> Error_rol_no_existente 99"
  by (simp add: example_manager_def example_db_def check_user_role_def check_user_role_try_def
      grant_role_def grant_role_try_def get_user_id_def select_usuario_def execute_def
      next_fault_def)

text \<open>
  C6. A login name with no row in the users table: whatever the environment answers,
  \<^verbatim>\<open>check_user_role\<close> and \<^verbatim>\<open>grant_role\<close> return \<open>False\<close>, the last line they print is
  the warning of a user that does not exist, and no table changes.
\<close>

theorem user_not_found:
  assumes "connection self = Some d"
    and "user \<notin> snd ` set (ue_usuario d)"
  shows "\<exists>out d'.
      check_user_role self user r =
        (Inr False, out @ [(Stderr, Warning_usuario_no_existente user)],
         self\<lparr>connection := Some d'\<rparr>) \<and>
      grant_role self user r =
        (Inr False, out @ [(Stderr, Warning_usuario_no_existente user)],
         self\<lparr>connection := Some d'\<rparr>) \<and>
      tables d' = tables d"
proof -
  have none: "find (\<lambda>row. snd row = user) (ue_usuario d) = None"
    using assms(2) by (rule no_row_no_match)
  obtain out d' where g: "get_user_id user d = (None, out, d')" and t: "tables d' = tables d"
    using none by (cases rule: get_user_id_cases [of user d]) auto
  from not_found_try [OF g] assms(1) t show ?thesis
    by (intro exI [of _ out] exI [of _ d']) (simp add: check_user_role_def grant_role_def)
qed

theorem user_not_found_witness:
  "connection example_manager = Some example_db \<and>
   ''bob'' \<notin> snd ` set (ue_usuario example_db) \<and>
   (\<exists>out d'.
      check_user_role example_manager ''bob'' 5 =
        (Inr False, out @ [(Stderr, Warning_usuario_no_existente ''bob'')],
         example_manager\<lparr>connection := Some d'\<rparr>) \<and>
      grant_role example_manager ''bob'' 5 =
        (Inr False, out @ [(Stderr, Warning_usuario_no_existente ''bob'')],
         example_manager\<lparr>connection := Some d'\<rparr>) \<and>
      tables d' = tables example_db)"
proof -
  have h: "connection example_manager = Some example_db"
    "''bob'' \<notin> snd ` set (ue_usuario example_db)"
    by (simp_all add: example_manager_def example_db_def)
  from user_not_found [OF h, of 5] h show ?thesis
    by blast
qed

text \<open>
  C9. A login name whose row in the users table carries the id 0: whatever the
  environment answers, both methods return \<open>False\<close> and end on the warning of a user
  that does not exist, although the row is there; no table changes.
\<close>

theorem user_id_zero_not_found:
  assumes "connection self = Some d"
    and "find (\<lambda>row. snd row = user) (ue_usuario d) = Some (0, user)"
  shows "\<exists>out d'.
      check_user_role self user r =
        (Inr False, out @ [(Stderr, Warning_usuario_no_existente user)],
         self\<lparr>connection := Some d'\<rparr>) \<and>
      grant_role self user r =
        (Inr False, out @ [(Stderr, Warning_usuario_no_existente user)],
         self\<lparr>connection := Some d'\<rparr>) \<and>
      tables d' = tables d"
proof -
  obtain user_id out d' where g: "get_user_id user d = (user_id, out, d')"
    and z: "user_id = None \<or> user_id = Some 0" and t: "tables d' = tables d"
    using assms(2) by (cases rule: get_user_id_cases [of user d]) auto
  from not_found_try [OF g z] assms(1) t show ?thesis
    by (intro exI [of _ out] exI [of _ d']) (simp add: check_user_role_def grant_role_def)
qed

theorem user_id_zero_not_found_witness:
  "connection example_manager = Some example_db \<and>
   find (\<lambda>row. snd row = ''root'') (ue_usuario example_db) = Some (0, ''root'') \<and>
   map_of (roles example_manager) 5 = Some ''Admin'' \<and>
   (\<exists>out d'.
      check_user_role example_manager ''root'' 5 =
        (Inr False, out @ [(Stderr, Warning_usuario_no_existente ''root'')],
         example_manager\<lparr>connection := Some d'\<rparr>) \<and>
      grant_role example_manager ''root'' 5 =
        (Inr False, out @ [(Stderr, Warning_usuario_no_existente ''root'')],
         example_manager\<lparr>connection := Some d'\<rparr>) \<and>
      tables d' = tables example_db)"
proof -
  have h: "connection example_manager = Some example_db"
    "find (\<lambda>row. snd row = ''root'') (ue_usuario example_db) = Some (0, ''root'')"
    by (simp_all add: example_manager_def example_db_def)
  have "map_of (roles example_manager) 5 = Some ''Admin''"
    by (simp add: example_manager_def)
  with user_id_zero_not_found [OF h, of 5] h show ?thesis
    by blast
qed


section \<open>Database errors during a membership check\<close>

text \<open>
  C10. A database error while \<^verbatim>\<open>check_user_role\<close> resolves the user, or while it
  runs the membership query, ends in the return value \<open>False\<close>: the call returns, no
  exception leaves it. A user who lacks the role gets the same return value from a
  session without any error; only the line printed differs.
\<close>

theorem check_user_role_database_error:
  assumes "connection self = Some d"
  shows "(faults d = Some e # fs \<longrightarrow>
            check_user_role self user r =
              (Inr False,
               [(Stderr, Error_trayendo_usuario user e), (Stderr, Warning_usuario_no_existente user)],
               self\<lparr>connection := Some (d\<lparr>faults := fs\<rparr>)\<rparr>)) \<and>
         (faults d = None # Some e # fs \<and>
          find (\<lambda>row. snd row = user) (ue_usuario d) = Some (uid, user) \<and> uid \<noteq> 0 \<and>
          map_of (roles self) r = Some name \<longrightarrow>
            check_user_role self user r =
              (Inr False, [(Stderr, Error_de_oracle_al_revisar e)],
               self\<lparr>connection := Some (d\<lparr>faults := fs\<rparr>)\<rparr>)) \<and>
         (faults d = [] \<and>
          find (\<lambda>row. snd row = user) (ue_usuario d) = Some (uid, user) \<and> uid \<noteq> 0 \<and>
          map_of (roles self) r = Some name \<and>
          \<not> list_ex (\<lambda>g. rol_id g = r \<and> usr_id g = uid) (ue_usuario_roles d) \<longrightarrow>
            check_user_role self user r =
              (Inr False, [(Stdout, Usuario_no_tiene_rol user r name)],
               self\<lparr>connection := Some d\<rparr>))"
proof (intro conjI impI)
  assume "faults d = Some e # fs"
  with assms show "check_user_role self user r =
      (Inr False,
       [(Stderr, Error_trayendo_usuario user e), (Stderr, Warning_usuario_no_existente user)],
       self\<lparr>connection := Some (d\<lparr>faults := fs\<rparr>)\<rparr>)"
    by (simp add: check_user_role_def check_user_role_try_def get_user_id_fault)
next
  assume a: "faults d = None # Some e # fs \<and>
    find (\<lambda>row. snd row = user) (ue_usuario d) = Some (uid, user) \<and> uid \<noteq> 0 \<and>
    map_of (roles self) r = Some name"
  then have "faults (d\<lparr>faults := Some e # fs\<rparr>) = Some e # fs"
    by simp
  with assms a show "check_user_role self user r =
      (Inr False, [(Stderr, Error_de_oracle_al_revisar e)],
       self\<lparr>connection := Some (d\<lparr>faults := fs\<rparr>)\<rparr>)"
    by (simp add: check_user_role_def check_user_role_try_def get_user_id_pass
        select_usuario_roles_def execute_fault role_exists_def)
next
  assume "faults d = [] \<and>
    find (\<lambda>row. snd row = user) (ue_usuario d) = Some (uid, user) \<and> uid \<noteq> 0 \<and>
    map_of (roles self) r = Some name \<and>
    \<not> list_ex (\<lambda>g. rol_id g = r \<and> usr_id g = uid) (ue_usuario_roles d)"
  with assms show "check_user_role self user r =
      (Inr False, [(Stdout, Usuario_no_tiene_rol user r name)], self\<lparr>connection := Some d\<rparr>)"
    by (simp add: check_user_role_def check_user_role_try_def get_user_id_no_fault
        select_usuario_roles_def execute_no_fault role_exists_def roles_get_def)
qed

theorem check_user_role_database_error_witness:
  "fst (check_user_role
      (example_manager\<lparr>connection := Some (example_db\<lparr>faults :=
         [Some (DatabaseError ''ORA-03113: end-of-file on communication channel'')]\<rparr>)\<rparr>)
      ''alice'' 7) = Inr False \<and>
   fst (check_user_role
      (example_manager\<lparr>connection := Some (example_db\<lparr>faults :=
         [None, Some (DatabaseError ''ORA-03113: end-of-file on communication channel'')]\<rparr>)\<rparr>)
      ''alice'' 7) = Inr False \<and>
   fst (check_user_role example_manager ''alice'' 5) = Inr False \<and>
   fst (check_user_role example_manager ''alice'' 7) = Inr True"
proof -
  define e where "e = DatabaseError ''ORA-03113: end-of-file on communication channel''"
  define d1 where "d1 = example_db\<lparr>faults := [Some e]\<rparr>"
  define d2 where "d2 = example_db\<lparr>faults := [None, Some e]\<rparr>"
  have "connection (example_manager\<lparr>connection := Some d1\<rparr>) = Some d1" "faults d1 = Some e # []"
    by (simp_all add: d1_def)
  with check_user_role_database_error [where self = "example_manager\<lparr>connection := Some d1\<rparr>" and d = d1 and e = e and fs = "[]"
      and user = "''alice''" and r = 7]
  have 1: "fst (check_user_role (example_manager\<lparr>connection := Some d1\<rparr>) ''alice'' 7) = Inr False"
    by simp
  have "connection (example_manager\<lparr>connection := Some d2\<rparr>) = Some d2"
    "faults d2 = None # Some e # []"
    "find (\<lambda>row. snd row = ''alice'') (ue_usuario d2) = Some (42, ''alice'')"
    "map_of (roles (example_manager\<lparr>connection := Some d2\<rparr>)) 7 = Some ''Viewer''"
    by (simp_all add: d2_def example_db_def example_manager_def)
  with check_user_role_database_error [where self = "example_manager\<lparr>connection := Some d2\<rparr>" and d = d2 and e = e and fs = "[]"
      and user = "''alice''" and uid = 42 and r = 7 and name = "''Viewer''"]
  have 2: "fst (check_user_role (example_manager\<lparr>connection := Some d2\<rparr>) ''alice'' 7) = Inr False"
    by simp
  have "connection example_manager = Some example_db" "faults example_db = []"
    "find (\<lambda>row. snd row = ''alice'') (ue_usuario example_db) = Some (42, ''alice'')"
    "map_of (roles example_manager) 5 = Some ''Admin''"
    "\<not> list_ex (\<lambda>g. rol_id g = 5 \<and> usr_id g = 42) (ue_usuario_roles example_db)"
    by (simp_all add: example_db_def example_manager_def)
  with check_user_role_database_error [where self = example_manager and d = example_db and e = e and fs = "[]"
      and user = "''alice''" and uid = 42 and r = 5 and name = "''Admin''"]
  have 3: "fst (check_user_role example_manager ''alice'' 5) = Inr False"
    by simp
  have 4: "fst (check_user_role example_manager ''alice'' 7) = Inr True"
    by (simp add: example_manager_def example_db_def check_user_role_def check_user_role_try_def
      get_user_id_def select_usuario_def select_usuario_roles_def execute_def next_fault_def
      role_exists_def roles_get_def)
  from 1 2 3 4 show ?thesis
    by (simp add: d1_def d2_def e_def)
qed


section \<open>Listing the catalog\<close>

lemma role_lines_append: "role_lines (xs @ ys) = role_lines xs @ role_lines ys"
  by (induction xs rule: role_lines.induct) simp_all

lemma role_lines_rows:
  "role_lines (map (\<lambda>(role_id, role_name). (c, Role_line role_id role_name)) rs) = rs"
  by (induction rs) auto

lemma role_lines_listing: "role_lines (snd (RoleManager_list_all_roles self)) = sort (roles self)"
  by (simp add: RoleManager_list_all_roles_def role_lines_append role_lines_rows)

lemma sorted_pairs_sorted_ids:
  fixes rs :: "(int \<times> string) list"
  assumes "sorted rs"
  shows "sorted (map fst rs)"
proof -
  have "sorted_wrt (\<lambda>x y. fst x \<le> fst y) rs"
    using assms by (rule sorted_wrt_mono_rel [rotated]) (auto simp: less_eq_prod_def)
  then show ?thesis
    by (simp add: sorted_map)
qed

lemma same_pairs_same_sort:
  fixes xs ys :: "(int \<times> string) list"
  assumes "mset ys = mset xs"
  shows "sort ys = sort xs"
proof (rule properties_for_sort)
  show "mset (sort xs) = mset ys"
    using assms by simp
  show "sorted (sort xs)"
    by simp
qed

lemma listed_roles_listing:
  "listed_roles (list_all_roles self) =
     map (\<lambda>(role_id, role_name). PyDict [(''id'', PyInt role_id), (''nombre'', PyStr role_name)])
       (sort (roles self))"
  by (simp add: list_all_roles_def)

text \<open>
  C7. For every catalog, the pairs \<^verbatim>\<open>list_all_roles\<close> lists are the pairs of the
  catalog in ascending order of id: so for the lines the method of the class prints, and
  the structured listing of \<^verbatim>\<open>api.py\<close> carries the same pairs in the same order under
  \<^verbatim>\<open>roles\<close>. Two catalogs with the same pairs, stored in any order, are listed alike.
  (An empty catalog has no pairs and none is listed; what is returned then is C8.)
\<close>

theorem list_all_roles_ascending:
  "sorted (map fst (role_lines (snd (RoleManager_list_all_roles self)))) \<and>
   mset (role_lines (snd (RoleManager_list_all_roles self))) = mset (roles self) \<and>
   listed_roles (list_all_roles self) =
     map (\<lambda>(role_id, role_name). PyDict [(''id'', PyInt role_id), (''nombre'', PyStr role_name)])
       (role_lines (snd (RoleManager_list_all_roles self))) \<and>
   (\<forall>other. mset (roles other) = mset (roles self) \<longrightarrow>
      RoleManager_list_all_roles other = RoleManager_list_all_roles self \<and>
      list_all_roles other = list_all_roles self)"
proof (intro conjI allI impI)
  show "sorted (map fst (role_lines (snd (RoleManager_list_all_roles self))))"
    by (simp add: role_lines_listing sorted_pairs_sorted_ids)
  show "mset (role_lines (snd (RoleManager_list_all_roles self))) = mset (roles self)"
    by (simp add: role_lines_listing)
  show "listed_roles (list_all_roles self) =
     map (\<lambda>(role_id, role_name). PyDict [(''id'', PyInt role_id), (''nombre'', PyStr role_name)])
       (role_lines (snd (RoleManager_list_all_roles self)))"
    by (simp only: role_lines_listing listed_roles_listing)
next
  fix other :: role_manager
  assume m: "mset (roles other) = mset (roles self)"
  then have s: "sort (roles other) = sort (roles self)"
    by (rule same_pairs_same_sort)
  from m have l: "length (roles other) = length (roles self)"
    by (rule mset_eq_length)
  then have e: "roles other = [] \<longleftrightarrow> roles self = []"
    by (metis length_0_conv)
  show "RoleManager_list_all_roles other = RoleManager_list_all_roles self"
    by (simp add: RoleManager_list_all_roles_def s l e)
  show "list_all_roles other = list_all_roles self"
    by (simp add: list_all_roles_def s l e)
qed

theorem list_all_roles_ascending_witness:
  "(\<exists>m m'.
      fst (RoleManager_init (Some (example_db\<lparr>ue_roles := [(2, ''Admin''), (1, ''Viewer'')]\<rparr>))) = Inr m \<and>
      fst (RoleManager_init (Some (example_db\<lparr>ue_roles := [(1, ''Viewer''), (2, ''Admin'')]\<rparr>))) = Inr m' \<and>
      roles m = [(2, ''Admin''), (1, ''Viewer'')] \<and>
      roles m' = [(1, ''Viewer''), (2, ''Admin'')] \<and>
      role_lines (snd (RoleManager_list_all_roles m)) = [(1, ''Viewer''), (2, ''Admin'')] \<and>
      list_all_roles m =
        PyDict [(''total'', PyInt 2),
                (''roles'', PyList [PyDict [(''id'', PyInt 1), (''nombre'', PyStr ''Viewer'')],
                                   PyDict [(''id'', PyInt 2), (''nombre'', PyStr ''Admin'')]])] \<and>
      list_all_roles m' = list_all_roles m \<and>
      RoleManager_list_all_roles m' = RoleManager_list_all_roles m)"
proof -
  define m where
    "m = \<lparr>connection = Some (example_db\<lparr>ue_roles := [(2, ''Admin''), (1, ''Viewer'')]\<rparr>),
          roles = [(2::int, ''Admin''), (1, ''Viewer'')],
          roles_by_name = [(''Admin'', 2::int), (''Viewer'', 1)]\<rparr>"
  define m' where
    "m' = \<lparr>connection = Some (example_db\<lparr>ue_roles := [(1, ''Viewer''), (2, ''Admin'')]\<rparr>),
          roles = [(1::int, ''Viewer''), (2, ''Admin'')],
          roles_by_name = [(''Viewer'', 1::int), (''Admin'', 2)]\<rparr>"
  have i: "fst (RoleManager_init (Some (example_db\<lparr>ue_roles := [(2, ''Admin''), (1, ''Viewer'')]\<rparr>))) = Inr m"
    by (simp add: m_def RoleManager_init_def load_roles_from_db_def select_roles_def execute_def
        next_fault_def example_db_def dict_of_def)
  have i': "fst (RoleManager_init (Some (example_db\<lparr>ue_roles := [(1, ''Viewer''), (2, ''Admin'')]\<rparr>))) = Inr m'"
    by (simp add: m'_def RoleManager_init_def load_roles_from_db_def select_roles_def execute_def
        next_fault_def example_db_def dict_of_def)
  have r: "roles m = [(2, ''Admin''), (1, ''Viewer'')]" "roles m' = [(1, ''Viewer''), (2, ''Admin'')]"
    by (simp_all add: m_def m'_def)
  then have "mset (roles m') = mset (roles m)"
    by simp
  with list_all_roles_ascending [of m]
  have same: "RoleManager_list_all_roles m' = RoleManager_list_all_roles m"
    "list_all_roles m' = list_all_roles m"
    by blast+
  have l: "role_lines (snd (RoleManager_list_all_roles m)) = [(1, ''Viewer''), (2, ''Admin'')]"
    by (simp add: role_lines_listing r)
  have s: "list_all_roles m =
        PyDict [(''total'', PyInt 2),
                (''roles'', PyList [PyDict [(''id'', PyInt 1), (''nombre'', PyStr ''Viewer'')],
                                   PyDict [(''id'', PyInt 2), (''nombre'', PyStr ''Admin'')]])]"
    by (simp add: list_all_roles_def r)
  from i i' r same l s show ?thesis
    by blast
qed

text \<open>
  What each version does on an empty catalog. The function \<^verbatim>\<open>list_all_roles\<close> of the
  module \<^verbatim>\<open>api.py\<close> returns the dict that says no roles were found, which is not the
  listing of zero roles and is the result of no catalog that has a role. The method of
  the class prints that message on stderr and returns \<open>None\<close>.
\<close>

lemma empty_catalog_listing:
  assumes "roles self = []"
  shows "list_all_roles self = PyDict [(''error'', PyStr ''No se encontraron roles'')] \<and>
         list_all_roles self \<noteq> PyDict [(''total'', PyInt 0), (''roles'', PyList [])] \<and>
         RoleManager_list_all_roles self = (PyNone, [(Stderr, No_se_encontraron_roles)]) \<and>
         (\<forall>other. roles other \<noteq> [] \<longrightarrow>
            list_all_roles other \<noteq> list_all_roles self \<and>
            RoleManager_list_all_roles other \<noteq> RoleManager_list_all_roles self)"
  using assms by (simp add: list_all_roles_def RoleManager_list_all_roles_def)

text \<open>The value the method of the class returns is \<open>None\<close>, whatever the catalog.\<close>

lemma RoleManager_list_all_roles_returns_None: "fst (RoleManager_list_all_roles self) = PyNone"
  by (simp add: RoleManager_list_all_roles_def)

text \<open>
  C8, where the code leaves the claim. The claim asks that listing an empty catalog
  return a structured outcome saying that no roles are available, distinct from an
  empty listing. A manager built on an empty roles table has an empty catalog. Its
  method \<^verbatim>\<open>list_all_roles\<close>, the one every caller reaches in both modules, prints the
  message on stderr and returns \<open>None\<close>, the value it also returns for the catalog of
  three roles; through the route \<^verbatim>\<open>/roles\<close> the answer is \<^verbatim>\<open>null\<close> with status 200
  in both cases. The structured outcome is what the function \<^verbatim>\<open>list_all_roles\<close> of the
  module \<^verbatim>\<open>api.py\<close> would return; it is not a method of the class and nothing calls it.
\<close>

theorem list_all_roles_empty_example:
  "RoleManager_init (Some (example_db\<lparr>ue_roles := []\<rparr>)) = (Inr empty_manager, []) \<and>
   roles empty_manager = [] \<and>
   RoleManager_list_all_roles empty_manager = (PyNone, [(Stderr, No_se_encontraron_roles)]) \<and>
   fst (RoleManager_list_all_roles example_manager) = fst (RoleManager_list_all_roles empty_manager) \<and>
   get_all_roles (Some empty_manager) = ((PyNone, 200), [(Stderr, No_se_encontraron_roles)]) \<and>
   fst (get_all_roles (Some example_manager)) = fst (get_all_roles (Some empty_manager)) \<and>
   list_all_roles empty_manager = PyDict [(''error'', PyStr ''No se encontraron roles'')]"
  by (simp add: empty_manager_def example_manager_def example_db_def RoleManager_init_def
      load_roles_from_db_def select_roles_def execute_def next_fault_def dict_of_def
      RoleManager_list_all_roles_def get_all_roles_def list_all_roles_def)

section \<open>The route \<^verbatim>\<open>/roles\<close>\<close>

text \<open>Whatever the catalog, a manager that exists answers \<^verbatim>\<open>null\<close> with status 200.\<close>

lemma get_all_roles_null: "fst (get_all_roles (Some rm)) = (PyNone, 200)"
  by (simp add: get_all_roles_def RoleManager_list_all_roles_def)

text \<open>
  C3, where the code leaves the claim. With a manager built and three roles in the
  catalog, the handler calls the method of the class, which prints the table and
  returns \<open>None\<close>: the body is \<^verbatim>\<open>null\<close> with status 200, not the listing that the
  function \<^verbatim>\<open>list_all_roles\<close> of the module would give. Without a manager the answer
  is the error body with status 500, as the claim says.
\<close>

theorem get_all_roles_example:
  "fst (get_all_roles (Some example_manager)) = (PyNone, 200) \<and>
   list_all_roles example_manager =
     PyDict [(''total'', PyInt 3),
             (''roles'', PyList [PyDict [(''id'', PyInt 5), (''nombre'', PyStr ''Admin'')],
                                PyDict [(''id'', PyInt 7), (''nombre'', PyStr ''Viewer'')],
                                PyDict [(''id'', PyInt 9), (''nombre'', PyStr ''Auditor'')]])] \<and>
   get_all_roles None =
     ((PyDict [(''error'', PyStr ''El servidor no pudo conectarse a la base de datos'')], 500), [])"
  by (simp add: get_all_roles_def RoleManager_list_all_roles_def list_all_roles_def
      example_manager_def)

end
